theory Spec2Isabelle
  imports Complex_Main "HOL-Library.Word"
begin

section \<open>The Samsung maker note of Exiv2: \<^verbatim>\<open>src/samsungmn_int.cpp\<close>\<close>

text \<open>
  The file defines two tag tables (\<^verbatim>\<open>Samsung2MakerNote::tagInfo_\<close> for the maker note
  itself and \<^verbatim>\<open>tagInfoPw_\<close> for the PictureWizard composite tag), four lookup tables
  of \<^verbatim>\<open>TagDetails\<close> and four print functions. Everything else it uses (the \<^verbatim>\<open>Value\<close>
  class, the enumerations, the output stream, the generic print functions and the
  lookup of a tag in a table) is declared in headers that are not part of the file.
\<close>

subsection \<open>Enumerations and structures declared in the headers\<close>

text \<open>
  \<^verbatim>\<open>TypeId\<close> (types.hpp): the constructors are the type ids the file names; the rest of
  the enumeration is \<open>otherTypeId\<close> with its numeric code. The C++ enumerator
  \<^verbatim>\<open>undefined\<close> is written \<open>undefinedId\<close>.
\<close>

datatype TypeId =
    asciiString
  | unsignedShort
  | unsignedLong
  | unsignedRational
  | undefinedId
  | signedLong
  | signedRational
  | otherTypeId nat

text \<open>
  \<^verbatim>\<open>IfdId\<close> and \<^verbatim>\<open>SectionId\<close> (tags.hpp): the two directories and the one section the
  file names, and the rest of each enumeration.
\<close>

datatype IfdId = samsung2Id | samsungPwId | otherIfdId nat

datatype SectionId = makerTags | otherSectionId nat

text \<open>
  \<^verbatim>\<open>TagDetails\<close> (tags_int.hpp): a numeric code (\<^verbatim>\<open>int64_t val_\<close>) and its label. The
  markers \<^verbatim>\<open>N_("...")\<close> and \<^verbatim>\<open>_("...")\<close> of i18n.h are read as the string itself (no
  translation catalogue).
\<close>

datatype TagDetails = TagDetails (td_val: int) (td_label: string)

text \<open>
  \<^verbatim>\<open>PrintFct\<close> is a pointer to a print function. The pointers stored in the two tables
  are these; \<^verbatim>\<open>EXV_PRINT_TAG(array)\<close> is the generic lookup printer bound to \<^verbatim>\<open>array\<close>.
  Equality of pointers is equality of constructors.
\<close>

datatype PrintFct =
    Fct_printValue
  | Fct_printExifVersion
  | Fct_print0x9204
  | Fct_print0x829a
  | Fct_print0x829d
  | Fct_printCameraTemperature
  | Fct_printFocalLength35
  | Fct_printPwColor
  | Fct_printValueMinus4
  | EXV_PRINT_TAG "TagDetails list"

text \<open>
  \<^verbatim>\<open>TagInfo\<close> (tags.hpp), in the order of the aggregate initialisers of the file:
  tag (\<^verbatim>\<open>uint16_t\<close>), name, title, description, directory, section, type, count
  (\<^verbatim>\<open>int16_t\<close>, \<open>-1\<close> for any) and print function.
\<close>

datatype TagInfo = TagInfo
  (ti_tag: "16 word")
  (ti_name: string)
  (ti_title: string)
  (ti_desc: string)
  (ti_ifdId: IfdId)
  (ti_sectionId: SectionId)
  (ti_typeId: TypeId)
  (ti_count: int)
  (ti_printFct: PrintFct)

subsection \<open>The lookup tables\<close>

definition samsung2LensType :: "TagDetails list" where
  "samsung2LensType =
    [ TagDetails 0 ''Built-in'',
      TagDetails 1 ''Samsung NX 30mm F2 Pancake'',
      TagDetails 2 ''Samsung NX 18-55mm F3.5-5.6 OIS'',
      TagDetails 3 ''Samsung NX 50-200mm F4-5.6 ED OIS'',
      TagDetails 4 ''Samsung NX 20-50mm F3.5-5.6 ED'',
      TagDetails 5 ''Samsung NX 20mm F2.8 Pancake'',
      TagDetails 6 ''Samsung NX 18-200mm F3.5-6.3 ED OIS'',
      TagDetails 7 ''Samsung NX 60mm F2.8 Macro ED OIS SSA'',
      TagDetails 8 ''Samsung NX 16mm F2.4 Pancake'',
      TagDetails 9 ''Samsung NX 85mm F1.4 ED SSA'',
      TagDetails 10 ''Samsung NX 45mm F1.8'',
      TagDetails 11 ''Samsung NX 45mm F1.8 2D/3D'',
      TagDetails 12 ''Samsung NX 12-24mm F4-5.6 ED'',
      TagDetails 13 ''Samsung NX 16-50mm F2-2.8 S ED OIS'',
      TagDetails 14 ''Samsung NX 10mm F3.5 Fisheye'',
      TagDetails 15 ''Samsung NX 16-50mm F3.5-5.6 Power Zoom ED OIS'',
      TagDetails 20 ''Samsung NX 50-150mm F2.8 S ED OIS'',
      TagDetails 21 ''Samsung NX 300mm F2.8 ED OIS'' ]"

definition samsung2ColorSpace :: "TagDetails list" where
  "samsung2ColorSpace =
    [ TagDetails 0 ''sRGB'',
      TagDetails 1 ''Adobe RGB'' ]"

definition samsung2SmartRange :: "TagDetails list" where
  "samsung2SmartRange =
    [ TagDetails 0 ''Off'',
      TagDetails 1 ''On'' ]"

definition samsungPwMode :: "TagDetails list" where
  "samsungPwMode =
    [ TagDetails 0 ''Standard'', TagDetails 1 ''Vivid'',
      TagDetails 2 ''Portrait'', TagDetails 3 ''Landscape'',
      TagDetails 4 ''Forest'', TagDetails 5 ''Retro'',
      TagDetails 6 ''Cool'', TagDetails 7 ''Calm'',
      TagDetails 8 ''Classic'', TagDetails 9 ''Custom1'',
      TagDetails 10 ''Custom2'', TagDetails 11 ''Custom3'' ]"

subsection \<open>The tag tables\<close>

definition tagInfo :: "TagInfo list" where
  "tagInfo =
    [ TagInfo 0x0001 ''Version'' ''Version'' ''Makernote version''
        samsung2Id makerTags undefinedId (- 1) Fct_printExifVersion,
      TagInfo 0x0021 ''PictureWizard'' ''Picture Wizard'' ''Picture wizard composite tag''
        samsung2Id makerTags unsignedShort (- 1) Fct_printValue,
      TagInfo 0x0030 ''LocalLocationName'' ''Local Location Name'' ''Local location name''
        samsung2Id makerTags asciiString (- 1) Fct_printValue,
      TagInfo 0x0031 ''LocationName'' ''Location Name'' ''Location name''
        samsung2Id makerTags asciiString (- 1) Fct_printValue,
      TagInfo 0x0035 ''Preview'' ''Pointer to a preview image''
        ''Offset to an IFD containing a preview image''
        samsung2Id makerTags unsignedLong (- 1) Fct_printValue,
      TagInfo 0x0043 ''CameraTemperature'' ''Camera Temperature'' ''Camera temperature''
        samsung2Id makerTags signedRational (- 1) Fct_printCameraTemperature,
      TagInfo 0xa001 ''FirmwareName'' ''Firmware Name'' ''Firmware name''
        samsung2Id makerTags asciiString (- 1) Fct_printValue,
      TagInfo 0xa003 ''LensType'' ''Lens Type'' ''Lens type''
        samsung2Id makerTags unsignedShort (- 1) (EXV_PRINT_TAG samsung2LensType),
      TagInfo 0xa004 ''LensFirmware'' ''Lens Firmware'' ''Lens firmware''
        samsung2Id makerTags asciiString (- 1) Fct_printValue,
      TagInfo 0xa010 ''SensorAreas'' ''Sensor Areas'' ''Sensor areas''
        samsung2Id makerTags unsignedLong (- 1) Fct_printValue,
      TagInfo 0xa011 ''ColorSpace'' ''Color Space'' ''Color space''
        samsung2Id makerTags unsignedShort (- 1) (EXV_PRINT_TAG samsung2ColorSpace),
      TagInfo 0xa012 ''SmartRange'' ''Smart Range'' ''Smart range''
        samsung2Id makerTags unsignedShort (- 1) (EXV_PRINT_TAG samsung2SmartRange),
      TagInfo 0xa013 ''ExposureBiasValue'' ''Exposure Bias Value'' ''Exposure bias value''
        samsung2Id makerTags signedRational (- 1) Fct_print0x9204,
      TagInfo 0xa014 ''ISO'' ''ISO'' ''ISO''
        samsung2Id makerTags unsignedLong (- 1) Fct_printValue,
      TagInfo 0xa018 ''ExposureTime'' ''Exposure Time'' ''Exposure time''
        samsung2Id makerTags unsignedRational (- 1) Fct_print0x829a,
      TagInfo 0xa019 ''FNumber'' ''FNumber'' ''The F number.''
        samsung2Id makerTags unsignedRational (- 1) Fct_print0x829d,
      TagInfo 0xa01a ''FocalLengthIn35mmFormat'' ''Focal Length In 35mm Format''
        ''Focal length in 35mm format''
        samsung2Id makerTags unsignedLong (- 1) Fct_printFocalLength35,
      TagInfo 0xa020 ''EncryptionKey'' ''Encryption Key'' ''Encryption key''
        samsung2Id makerTags unsignedLong (- 1) Fct_printValue,
      TagInfo 0xa021 ''WB_RGGBLevelsUncorrected'' ''WB RGGB Levels Uncorrected''
        ''WB RGGB levels not corrected for WB_RGGBLevelsBlack''
        samsung2Id makerTags unsignedLong (- 1) Fct_printValue,
      TagInfo 0xa022 ''WB_RGGBLevelsAuto'' ''WB RGGB Levels Auto'' ''WB RGGB levels auto''
        samsung2Id makerTags unsignedLong (- 1) Fct_printValue,
      TagInfo 0xa023 ''WB_RGGBLevelsIlluminator1'' ''WB RGGB Levels Illuminator1''
        ''WB RGGB levels illuminator1''
        samsung2Id makerTags unsignedLong (- 1) Fct_printValue,
      TagInfo 0xa024 ''WB_RGGBLevelsIlluminator2'' ''WB RGGB Levels Illuminator2''
        ''WB RGGB levels illuminator2''
        samsung2Id makerTags unsignedLong (- 1) Fct_printValue,
      TagInfo 0xa028 ''WB_RGGBLevelsBlack'' ''WB RGGB Levels Black'' ''WB RGGB levels black''
        samsung2Id makerTags signedLong (- 1) Fct_printValue,
      TagInfo 0xa030 ''ColorMatrix'' ''Color Matrix'' ''Color matrix''
        samsung2Id makerTags signedLong (- 1) Fct_printValue,
      TagInfo 0xa031 ''ColorMatrixSRGB'' ''Color Matrix sRGB'' ''Color matrix sRGB''
        samsung2Id makerTags signedLong (- 1) Fct_printValue,
      TagInfo 0xa032 ''ColorMatrixAdobeRGB'' ''Color Matrix Adobe RGB''
        ''Color matrix Adobe RGB''
        samsung2Id makerTags signedLong (- 1) Fct_printValue,
      TagInfo 0xa040 ''ToneCurve1'' ''Tone Curve 1'' ''Tone curve 1''
        samsung2Id makerTags unsignedLong (- 1) Fct_printValue,
      TagInfo 0xa041 ''ToneCurve2'' ''Tone Curve 2'' ''Tone curve 2''
        samsung2Id makerTags unsignedLong (- 1) Fct_printValue,
      TagInfo 0xa042 ''ToneCurve3'' ''Tone Curve 3'' ''Tone curve 3''
        samsung2Id makerTags unsignedLong (- 1) Fct_printValue,
      TagInfo 0xa043 ''ToneCurve4'' ''Tone Curve 4'' ''Tone curve 4''
        samsung2Id makerTags unsignedLong (- 1) Fct_printValue,
      TagInfo 0xffff ''(UnknownSamsung2MakerNoteTag)'' ''(UnknownSamsung2MakerNoteTag)''
        ''Unknown Samsung2MakerNote tag''
        samsung2Id makerTags undefinedId (- 1) Fct_printValue ]"

definition tagList :: "TagInfo list" where
  "tagList = tagInfo"

definition tagInfoPw :: "TagInfo list" where
  "tagInfoPw =
    [ TagInfo 0x0000 ''Mode'' ''Mode'' ''Mode''
        samsungPwId makerTags unsignedShort 1 (EXV_PRINT_TAG samsungPwMode),
      TagInfo 0x0001 ''Color'' ''Color'' ''Color''
        samsungPwId makerTags unsignedShort 1 Fct_printPwColor,
      TagInfo 0x0002 ''Saturation'' ''Saturation'' ''Saturation''
        samsungPwId makerTags unsignedShort 1 Fct_printValueMinus4,
      TagInfo 0x0003 ''Sharpness'' ''Sharpness'' ''Sharpness''
        samsungPwId makerTags unsignedShort 1 Fct_printValueMinus4,
      TagInfo 0x0004 ''Contrast'' ''Contrast'' ''Contrast''
        samsungPwId makerTags unsignedShort 1 Fct_printValueMinus4,
      TagInfo 0xffff ''(UnknownSamsungPictureWizardTag)'' ''(UnknownSamsungPictureWizardTag)''
        ''Unknown SamsungPictureWizard tag''
        samsungPwId makerTags unsignedShort 1 Fct_printValue ]"

definition tagListPw :: "TagInfo list" where
  "tagListPw = tagInfoPw"

subsection \<open>Decoded values and the output stream\<close>

text \<open>
  \<^verbatim>\<open>Value\<close> (value.hpp) is passed by const reference and read through const member
  functions only, so a value is the record of what those functions return:
  \<^verbatim>\<open>typeId()\<close>, \<^verbatim>\<open>count()\<close>, \<^verbatim>\<open>toInt64(n)\<close> (an \<^verbatim>\<open>int64_t\<close>), \<^verbatim>\<open>toFloat(n)\<close> and the text
  that \<^verbatim>\<open>os << value\<close> writes (\<open>toString\<close>). An accessor may throw when asked for a
  component the value does not have (\<open>None\<close>); \<open>readable\<close> says that it does not throw
  for the components below \<^verbatim>\<open>count()\<close>. The type \<open>'f\<close> stands for \<^verbatim>\<open>float\<close>.
\<close>

record 'f Value =
  typeId :: TypeId
  count :: nat
  toInt64 :: "nat \<Rightarrow> 64 word option"
  toFloat :: "nat \<Rightarrow> 'f option"
  toString :: string

definition readable :: "'f Value \<Rightarrow> bool" where
  "readable v = (\<forall>n < count v. toInt64 v n \<noteq> None \<and> toFloat v n \<noteq> None)"

datatype error = out_of_range

text \<open>
  The stream is the text written so far; \<^verbatim>\<open>os << x\<close> appends the text of \<open>x\<close>. A print
  function returns the stream, or the exception of an accessor.
\<close>

type_synonym ostream = string

text \<open>\<^verbatim>\<open>os << n\<close> for an \<^verbatim>\<open>int64_t\<close>: decimal digits, a minus sign when negative.\<close>

definition digit_char :: "nat \<Rightarrow> char" where
  "digit_char d = ''0123456789'' ! d"

function show_nat :: "nat \<Rightarrow> string" where
  "show_nat n = (if n < 10 then [digit_char n] else show_nat (n div 10) @ [digit_char (n mod 10)])"
  by pat_completeness auto
termination
  by (relation "measure id") auto

declare show_nat.simps [simp del]

definition show_int :: "int \<Rightarrow> string" where
  "show_int i = (if i < 0 then CHR ''-'' # show_nat (nat (- i)) else show_nat (nat i))"

text \<open>
  \<^verbatim>\<open>stringFormat("{:.1f}", x)\<close>: \<open>x\<close> in fixed notation with one digit after the point,
  rounded to the nearest tenth (ties to the even tenth). The \<^verbatim>\<open>double\<close> \<open>x\<close> is read as
  the rational number it stands for.
\<close>

definition round_half_even :: "rat \<Rightarrow> int" where
  "round_half_even y =
     (let f = \<lfloor>y\<rfloor>; d = y - of_int f
      in if d < 1 / 2 then f else if 1 / 2 < d then f + 1 else if even f then f else f + 1)"

definition format_1f :: "rat \<Rightarrow> string" where
  "format_1f x =
     (let t = nat (round_half_even (\<bar>x\<bar> * 10))
      in (if x < 0 then [CHR ''-''] else []) @ show_nat (t div 10) @ [CHR ''.'', digit_char (t mod 10)])"

subsection \<open>The print functions of the file\<close>

text \<open>
  \<^verbatim>\<open>printCameraTemperature\<close>. The text of a \<^verbatim>\<open>float\<close> on the stream depends on the stream's
  format state, which the file never sets: it is the parameter \<open>put_float\<close>.
\<close>

definition printCameraTemperature ::
  "('f \<Rightarrow> string) \<Rightarrow> ostream \<Rightarrow> 'f Value \<Rightarrow> error + ostream" where
  "printCameraTemperature put_float os v =
     (if count v \<noteq> 1 \<or> typeId v \<noteq> signedRational then Inr (os @ toString v)
      else case toFloat v 0 of
             None \<Rightarrow> Inl out_of_range
           | Some x \<Rightarrow> Inr (os @ put_float x @ '' C''))"

text \<open>
  \<^verbatim>\<open>printFocalLength35\<close>. \<^verbatim>\<open>length / 10.0\<close> converts the \<^verbatim>\<open>int64_t\<close> to \<^verbatim>\<open>double\<close> and
  divides; the quotient is read as the rational \<open>length / 10\<close>, which \<^verbatim>\<open>{:.1f}\<close> prints
  digit for digit as long as the reading has at most 15 decimal digits.
\<close>

definition printFocalLength35 :: "ostream \<Rightarrow> 'f Value \<Rightarrow> error + ostream" where
  "printFocalLength35 os v =
     (if count v \<noteq> 1 \<or> typeId v \<noteq> unsignedLong then Inr (os @ toString v)
      else case toInt64 v 0 of
             None \<Rightarrow> Inl out_of_range
           | Some length' \<Rightarrow>
               if length' = 0 then Inr (os @ ''Unknown'')
               else Inr (os @ format_1f (of_int (sint length') / 10) @ '' mm''))"

text \<open>\<^verbatim>\<open>printPwColor\<close>: the value is read twice, by two calls of \<^verbatim>\<open>toInt64()\<close>.\<close>

definition printPwColor :: "ostream \<Rightarrow> 'f Value \<Rightarrow> error + ostream" where
  "printPwColor os v =
     (if count v \<noteq> 1 \<or> typeId v \<noteq> unsignedShort then Inr (os @ toString v)
      else case toInt64 v 0 of
             None \<Rightarrow> Inl out_of_range
           | Some c \<Rightarrow>
               if c = 65535 then Inr (os @ ''Neutral'')
               else (case toInt64 v 0 of
                       None \<Rightarrow> Inl out_of_range
                     | Some c' \<Rightarrow> Inr (os @ show_int (sint c'))))"

text \<open>
  \<^verbatim>\<open>printValueMinus4\<close>: the subtraction is one of \<^verbatim>\<open>int64_t\<close>, here on the 64-bit word,
  and the difference is printed as a signed number.
\<close>

definition printValueMinus4 :: "ostream \<Rightarrow> 'f Value \<Rightarrow> error + ostream" where
  "printValueMinus4 os v =
     (if count v \<noteq> 1 \<or> typeId v \<noteq> unsignedShort then Inr (os @ toString v)
      else case toInt64 v 0 of
             None \<Rightarrow> Inl out_of_range
           | Some x \<Rightarrow> Inr (os @ show_int (sint (x - 4))))"

subsection \<open>Functions of the library that the file only refers to\<close>

text \<open>
  Modelled from the spec: the generic lookup printer that \<^verbatim>\<open>EXV_PRINT_TAG(array)\<close> names
  (tags_int.hpp) is not in the file. The spec (4.3): if the value's element count is
  exactly 1 and its type matches the expected enumerated-integer type, search the table
  for the value's integer reading by a straightforward scan; on match emit the table's
  label, on no match emit the raw integer; if count or type do not match, emit the
  value's default raw text. The expected type is the parameter \<open>expected\<close>.
\<close>

definition printTag :: "TagDetails list \<Rightarrow> TypeId \<Rightarrow> ostream \<Rightarrow> 'f Value \<Rightarrow> error + ostream" where
  "printTag array expected os v =
     (if count v \<noteq> 1 \<or> typeId v \<noteq> expected then Inr (os @ toString v)
      else case toInt64 v 0 of
             None \<Rightarrow> Inl out_of_range
           | Some x \<Rightarrow>
               (case find (\<lambda>td. td_val td = sint x) array of
                  Some td \<Rightarrow> Inr (os @ td_label td)
                | None \<Rightarrow> Inr (os @ show_int (sint x))))"

text \<open>
  Modelled from the spec: directory dispatch and the lookup of a tag in a directory
  (tags_int.cpp) are not in the file; the file only provides \<^verbatim>\<open>tagList()\<close> and
  \<^verbatim>\<open>tagListPw()\<close>. The spec (4.1, 4.2): \<open>registry_for\<close> returns the registry of a
  supported directory id, an unknown id being an error of the caller; \<open>resolve\<close> scans
  the directory's descriptor sequence linearly until a matching id or the sentinel
  (\<open>0xffff\<close>) is reached and returns the descriptor reached. \<open>scan\<close> returns \<open>None\<close>
  when a sequence ends before either is found.
\<close>

definition registry_for :: "IfdId \<Rightarrow> TagInfo list option" where
  "registry_for d =
     (case d of samsung2Id \<Rightarrow> Some tagList | samsungPwId \<Rightarrow> Some tagListPw | otherIfdId _ \<Rightarrow> None)"

fun scan :: "TagInfo list \<Rightarrow> 16 word \<Rightarrow> TagInfo option" where
  "scan [] tag = None"
| "scan (ti # tis) tag = (if ti_tag ti = tag \<or> ti_tag ti = 0xffff then Some ti else scan tis tag)"

definition resolve :: "IfdId \<Rightarrow> 16 word \<Rightarrow> TagInfo option" where
  "resolve d tag = (case registry_for d of None \<Rightarrow> None | Some table \<Rightarrow> scan table tag)"

subsection \<open>Example values\<close>

text \<open>
  A value of type \<open>ty\<close> with \<open>n\<close> components, each read as \<open>x\<close>, whose raw text is \<open>s\<close>.
\<close>

definition example_value :: "TypeId \<Rightarrow> nat \<Rightarrow> 64 word \<Rightarrow> string \<Rightarrow> unit Value" where
  "example_value ty n x s =
     \<lparr> typeId = ty, count = n,
       toInt64 = (\<lambda>i. if i < n then Some x else None),
       toFloat = (\<lambda>i. if i < n then Some () else None),
       toString = s \<rparr>"

section \<open>Properties of the tables\<close>

lemma tagInfo_sorted: "sorted_wrt (<) (map ti_tag tagInfo)"
  by (simp add: tagInfo_def)

lemma tagInfoPw_sorted: "sorted_wrt (<) (map ti_tag tagInfoPw)"
  by (simp add: tagInfoPw_def)

lemma tagInfo_entries: "\<forall>t \<in> set tagInfo. ti_ifdId t = samsung2Id \<and> ti_count t = - 1"
  by (simp add: tagInfo_def)

lemma tagInfoPw_entries:
  "\<forall>t \<in> set tagInfoPw. ti_ifdId t = samsungPwId \<and> ti_typeId t = unsignedShort \<and> ti_count t = 1"
  by (simp add: tagInfoPw_def)

lemma strictly_sorted_distinct:
  fixes xs :: "16 word list"
  shows "sorted_wrt (<) xs \<Longrightarrow> distinct xs"
  by (induction xs) auto

text \<open>
  C10. Every entry of the top-level table has directory \<open>samsung2Id\<close> and count \<open>-1\<close>;
  every entry of the PictureWizard table, its sentinel included, has directory
  \<open>samsungPwId\<close>, type \<open>unsignedShort\<close> and count \<open>1\<close>; in each table the tags are
  distinct and strictly increasing (as unsigned 16-bit numbers).
\<close>

theorem tables_homogeneous_and_increasing:
  "(\<forall>t \<in> set tagInfo. ti_ifdId t = samsung2Id \<and> ti_count t = - 1)
   \<and> (\<forall>t \<in> set tagInfoPw.
         ti_ifdId t = samsungPwId \<and> ti_typeId t = unsignedShort \<and> ti_count t = 1)
   \<and> sorted_wrt (<) (map ti_tag tagInfo) \<and> sorted_wrt (<) (map ti_tag tagInfoPw)
   \<and> distinct (map ti_tag tagInfo) \<and> distinct (map ti_tag tagInfoPw)"
  using tagInfo_entries tagInfoPw_entries tagInfo_sorted tagInfoPw_sorted
    strictly_sorted_distinct [OF tagInfo_sorted] strictly_sorted_distinct [OF tagInfoPw_sorted]
  by blast

theorem tables_homogeneous_and_increasing_witness:
  "ti_ifdId (tagInfo ! 16) = samsung2Id \<and> ti_count (tagInfo ! 16) = - 1
   \<and> ti_tag (tagInfoPw ! 5) = 0xffff \<and> ti_ifdId (tagInfoPw ! 5) = samsungPwId
   \<and> ti_typeId (tagInfoPw ! 5) = unsignedShort \<and> ti_count (tagInfoPw ! 5) = 1"
proof -
  have m: "tagInfo ! 16 \<in> set tagInfo"
    by (simp add: tagInfo_def)
  have n: "tagInfoPw ! 5 \<in> set tagInfoPw"
    by (simp add: tagInfoPw_def)
  have k: "ti_tag (tagInfoPw ! 5) = 0xffff"
    by (simp add: tagInfoPw_def)
  from tables_homogeneous_and_increasing m n k show ?thesis
    by blast
qed

text \<open>
  C3, as stated: in both tables the entry with tag \<open>0xffff\<close> has type \<open>undefinedId\<close> and
  print function \<open>printValue\<close>. The sentinel of the PictureWizard table (its entry
  number 5) has type \<open>unsignedShort\<close>.
\<close>

theorem sentinel_type_counterexample:
  "ti_tag (tagInfoPw ! 5) = 0xffff \<and> ti_typeId (tagInfoPw ! 5) \<noteq> undefinedId"
  by (simp add: tagInfoPw_def)

text \<open>
  C3, amended: each table has exactly one entry with tag \<open>0xffff\<close>, its last; its print
  function is \<open>printValue\<close> in both tables; its type is \<open>undefinedId\<close> in the top-level
  table and \<open>unsignedShort\<close> in the PictureWizard table.
\<close>

theorem sentinel_type_and_printer:
  "filter (\<lambda>t. ti_tag t = 0xffff) tagInfo = [last tagInfo]
   \<and> ti_typeId (last tagInfo) = undefinedId
   \<and> ti_printFct (last tagInfo) = Fct_printValue
   \<and> filter (\<lambda>t. ti_tag t = 0xffff) tagInfoPw = [last tagInfoPw]
   \<and> ti_typeId (last tagInfoPw) = unsignedShort
   \<and> ti_printFct (last tagInfoPw) = Fct_printValue"
  by (simp add: tagInfo_def tagInfoPw_def)

section \<open>Looking a tag up in a directory\<close>

lemma word16_le_max: "(w :: 16 word) \<le> 0xffff"
proof -
  have "uint w < 2 ^ 16"
    using uint_bounded [of w] by simp
  then show ?thesis
    by (simp add: word_le_def)
qed

text \<open>
  In a strictly increasing table the scan stops at an entry only after passing smaller
  tags, none of which is the tag looked for or the sentinel's.
\<close>

lemma scan_finds_entry:
  "sorted_wrt (<) (map ti_tag xs) \<Longrightarrow> t \<in> set xs \<Longrightarrow> scan xs (ti_tag t) = Some t"
proof (induction xs)
  case Nil
  then show ?case by simp
next
  case (Cons x xs)
  show ?case
  proof (cases "t = x")
    case True
    then show ?thesis by simp
  next
    case False
    with Cons.prems have mem: "t \<in> set xs" by simp
    with Cons.prems have less: "ti_tag x < ti_tag t" by simp
    moreover have "ti_tag t \<le> 0xffff" by (rule word16_le_max)
    ultimately have "ti_tag x \<noteq> ti_tag t" and "ti_tag x \<noteq> 0xffff" by auto
    moreover from Cons.prems have "sorted_wrt (<) (map ti_tag xs)" by simp
    ultimately show ?thesis
      using Cons.IH mem by simp
  qed
qed

lemma scan_reaches_sentinel:
  "s \<in> set xs \<Longrightarrow> ti_tag s = 0xffff \<Longrightarrow> tag \<notin> ti_tag ` set xs \<Longrightarrow>
   \<exists>u. scan xs tag = Some u \<and> u \<in> set xs \<and> ti_tag u = 0xffff"
  by (induction xs) auto

lemma scan_total:
  "s \<in> set xs \<Longrightarrow> ti_tag s = 0xffff \<Longrightarrow> \<exists>u. scan xs tag = Some u \<and> u \<in> set xs"
  by (induction xs) auto

lemma last_tagInfo: "last tagInfo \<in> set tagInfo" "ti_tag (last tagInfo) = 0xffff"
  by (simp_all add: tagInfo_def)

lemma last_tagInfoPw: "last tagInfoPw \<in> set tagInfoPw" "ti_tag (last tagInfoPw) = 0xffff"
  by (simp_all add: tagInfoPw_def)

lemma one_sentinel:
  "filter (\<lambda>t. ti_tag t = 0xffff) tagInfo = [last tagInfo]"
  "filter (\<lambda>t. ti_tag t = 0xffff) tagInfoPw = [last tagInfoPw]"
  by (simp_all add: tagInfo_def tagInfoPw_def)

lemma registry_cases:
  "registry_for d = Some table \<Longrightarrow>
   (d = samsung2Id \<and> table = tagInfo) \<or> (d = samsungPwId \<and> table = tagInfoPw)"
  by (auto simp: registry_for_def tagList_def tagListPw_def split: IfdId.splits)

lemma registry_facts:
  assumes "registry_for d = Some table"
  shows "sorted_wrt (<) (map ti_tag table)"
    and "last table \<in> set table"
    and "ti_tag (last table) = 0xffff"
    and "filter (\<lambda>t. ti_tag t = 0xffff) table = [last table]"
  using registry_cases [OF assms] tagInfo_sorted tagInfoPw_sorted last_tagInfo last_tagInfoPw
    one_sentinel
  by auto

lemma registry_of_entry:
  assumes "table \<in> {tagInfo, tagInfoPw}" and "t \<in> set table"
  shows "registry_for (ti_ifdId t) = Some table"
  using assms tagInfo_entries tagInfoPw_entries
  by (auto simp: registry_for_def tagList_def tagListPw_def)

text \<open>
  C1. In a supported directory (\<open>samsung2Id\<close> or \<open>samsungPwId\<close>, the ids for which
  \<open>registry_for\<close> returns a table) the lookup of any tag returns an entry of the table;
  for a tag that no entry of the table carries it returns the table's last entry, whose
  tag is \<open>0xffff\<close>; and the table has exactly one entry with tag \<open>0xffff\<close>.
\<close>

theorem resolve_absent_tag_gives_sentinel:
  assumes "registry_for d = Some table"
  shows "(\<exists>t \<in> set table. resolve d tag = Some t)
    \<and> (tag \<notin> ti_tag ` set table \<longrightarrow> resolve d tag = Some (last table))
    \<and> ti_tag (last table) = 0xffff
    \<and> length (filter (\<lambda>t. ti_tag t = 0xffff) table) = 1"
proof -
  note f = registry_facts [OF assms]
  have r: "resolve d tag = scan table tag"
    using assms by (simp add: resolve_def)
  have a: "\<exists>t \<in> set table. resolve d tag = Some t"
    using scan_total [OF f(2) f(3), of tag] r by auto
  have b: "resolve d tag = Some (last table)" if "tag \<notin> ti_tag ` set table"
  proof -
    from scan_reaches_sentinel [OF f(2) f(3) that]
    obtain u where u: "scan table tag = Some u" "u \<in> set table" "ti_tag u = 0xffff"
      by blast
    then have "u \<in> set (filter (\<lambda>t. ti_tag t = 0xffff) table)" by simp
    then have "u = last table" by (simp add: f(4))
    with u r show ?thesis by simp
  qed
  from a b f(3) f(4) show ?thesis by simp
qed

theorem resolve_absent_tag_gives_sentinel_witness:
  "resolve samsung2Id 0x0002 = Some (last tagInfo) \<and> ti_tag (last tagInfo) = 0xffff
   \<and> ti_name (last tagInfo) = ''(UnknownSamsung2MakerNoteTag)''
   \<and> resolve samsungPwId 0x0005 = Some (last tagInfoPw) \<and> ti_tag (last tagInfoPw) = 0xffff
   \<and> ti_name (last tagInfoPw) = ''(UnknownSamsungPictureWizardTag)''"
proof -
  have a: "registry_for samsung2Id = Some tagInfo"
    by (simp add: registry_for_def tagList_def)
  have b: "registry_for samsungPwId = Some tagInfoPw"
    by (simp add: registry_for_def tagListPw_def)
  have c: "(0x0002 :: 16 word) \<notin> ti_tag ` set tagInfo"
    by (simp add: tagInfo_def)
  have d: "(0x0005 :: 16 word) \<notin> ti_tag ` set tagInfoPw"
    by (simp add: tagInfoPw_def)
  have e: "ti_name (last tagInfo) = ''(UnknownSamsung2MakerNoteTag)''"
    by (simp add: tagInfo_def)
  have f: "ti_name (last tagInfoPw) = ''(UnknownSamsungPictureWizardTag)''"
    by (simp add: tagInfoPw_def)
  from resolve_absent_tag_gives_sentinel [OF a, of "0x0002"]
    resolve_absent_tag_gives_sentinel [OF b, of "0x0005"] c d e f
  show ?thesis by simp
qed

text \<open>
  C2. For every entry of either table other than the sentinel, the lookup of the entry's
  tag in the entry's directory returns that entry, hence its tag, name, title,
  description, type, count and print function.
\<close>

theorem resolve_returns_table_entry:
  assumes "table \<in> {tagInfo, tagInfoPw}" and "t \<in> set table" and "ti_tag t \<noteq> 0xffff"
  shows "resolve (ti_ifdId t) (ti_tag t) = Some t"
proof -
  have r: "registry_for (ti_ifdId t) = Some table"
    using assms(1,2) by (rule registry_of_entry)
  then have "sorted_wrt (<) (map ti_tag table)"
    by (rule registry_facts(1))
  then have "scan table (ti_tag t) = Some t"
    using assms(2) by (rule scan_finds_entry)
  with r show ?thesis
    by (simp add: resolve_def)
qed

theorem resolve_returns_table_entry_witness:
  "resolve samsung2Id 0xa01a =
     Some (TagInfo 0xa01a ''FocalLengthIn35mmFormat'' ''Focal Length In 35mm Format''
        ''Focal length in 35mm format''
        samsung2Id makerTags unsignedLong (- 1) Fct_printFocalLength35)
   \<and> resolve samsungPwId 0x0004 =
     Some (TagInfo 0x0004 ''Contrast'' ''Contrast'' ''Contrast''
        samsungPwId makerTags unsignedShort 1 Fct_printValueMinus4)"
proof -
  have a: "TagInfo 0xa01a ''FocalLengthIn35mmFormat'' ''Focal Length In 35mm Format''
        ''Focal length in 35mm format''
        samsung2Id makerTags unsignedLong (- 1) Fct_printFocalLength35 \<in> set tagInfo"
    by (simp add: tagInfo_def)
  have b: "TagInfo 0x0004 ''Contrast'' ''Contrast'' ''Contrast''
        samsungPwId makerTags unsignedShort 1 Fct_printValueMinus4 \<in> set tagInfoPw"
    by (simp add: tagInfoPw_def)
  from resolve_returns_table_entry [OF _ a] resolve_returns_table_entry [OF _ b]
  show ?thesis by simp
qed

section \<open>Properties of the print functions\<close>












text \<open>
  C7. Each of the four print functions of the file, given a value whose count is not 1
  or whose type is not the one it expects (\<open>signedRational\<close>, \<open>unsignedLong\<close>,
  \<open>unsignedShort\<close>, \<open>unsignedShort\<close>), appends exactly the value's raw text to the
  stream. On every readable value (one whose accessors do not throw below its count),
  of any type and count, none of them raises: each returns the stream with some text
  appended.
\<close>

theorem mismatch_prints_raw_value:
  "(count v \<noteq> 1 \<or> typeId v \<noteq> signedRational \<longrightarrow>
      printCameraTemperature put_float os v = Inr (os @ toString v))
   \<and> (count v \<noteq> 1 \<or> typeId v \<noteq> unsignedLong \<longrightarrow>
      printFocalLength35 os v = Inr (os @ toString v))
   \<and> (count v \<noteq> 1 \<or> typeId v \<noteq> unsignedShort \<longrightarrow>
      printPwColor os v = Inr (os @ toString v))
   \<and> (count v \<noteq> 1 \<or> typeId v \<noteq> unsignedShort \<longrightarrow>
      printValueMinus4 os v = Inr (os @ toString v))
   \<and> (readable v \<longrightarrow>
      (\<exists>t. printCameraTemperature put_float os v = Inr (os @ t))
      \<and> (\<exists>t. printFocalLength35 os v = Inr (os @ t))
      \<and> (\<exists>t. printPwColor os v = Inr (os @ t))
      \<and> (\<exists>t. printValueMinus4 os v = Inr (os @ t)))"
proof -
  have "\<exists>t. printCameraTemperature put_float os v = Inr (os @ t)" if "readable v"
    using that by (auto simp: printCameraTemperature_def readable_def split: option.splits)
  moreover have "\<exists>t. printFocalLength35 os v = Inr (os @ t)" if "readable v"
    using that by (auto simp: printFocalLength35_def readable_def split: option.splits)
  moreover have "\<exists>t. printPwColor os v = Inr (os @ t)" if "readable v"
    using that by (auto simp: printPwColor_def readable_def split: option.splits)
  moreover have "\<exists>t. printValueMinus4 os v = Inr (os @ t)" if "readable v"
    using that by (auto simp: printValueMinus4_def readable_def split: option.splits)
  ultimately show ?thesis
    by (simp add: printCameraTemperature_def printFocalLength35_def printPwColor_def
        printValueMinus4_def)
qed

theorem mismatch_prints_raw_value_witness:
  "printCameraTemperature (\<lambda>u. ''?'') ''t='' (example_value signedRational 2 7 ''7/1 9/1'')
      = Inr ''t=7/1 9/1''
   \<and> printFocalLength35 [] (example_value unsignedShort 1 550 ''550'') = Inr ''550''
   \<and> printPwColor [] (example_value unsignedShort 2 65535 ''65535 65535'')
      = Inr ''65535 65535''
   \<and> printValueMinus4 [] (example_value unsignedLong 1 6 ''6'') = Inr ''6''
   \<and> readable (example_value unsignedShort 1 6 ''6'')
   \<and> (\<exists>t. printValueMinus4 ''x'' (example_value unsignedShort 1 6 ''6'') = Inr (''x'' @ t))"
  using
    mismatch_prints_raw_value
      [of "example_value signedRational 2 7 ''7/1 9/1''" "\<lambda>u. ''?''" "''t=''"]
    mismatch_prints_raw_value [of "example_value unsignedShort 1 550 ''550''" "\<lambda>u. ''?''" "[]"]
    mismatch_prints_raw_value
      [of "example_value unsignedShort 2 65535 ''65535 65535''" "\<lambda>u. ''?''" "[]"]
    mismatch_prints_raw_value [of "example_value unsignedLong 1 6 ''6''" "\<lambda>u. ''?''" "[]"]
    mismatch_prints_raw_value [of "example_value unsignedShort 1 6 ''6''" "\<lambda>u. ''?''" "''x''"]
  by (simp add: example_value_def readable_def)

section \<open>The generic lookup printer\<close>

lemma find_unique_code:
  "distinct (map td_val xs) \<Longrightarrow> td \<in> set xs \<Longrightarrow>
   find (\<lambda>x. td_val x = td_val td) xs = Some td"
  by (induction xs) (auto simp: image_iff)

lemma find_absent_code:
  "(\<forall>td \<in> set xs. td_val td \<noteq> c) \<Longrightarrow> find (\<lambda>x. td_val x = c) xs = None"
  by (induction xs) auto

lemma lookup_tables_distinct:
  "distinct (map td_val samsung2LensType)" "distinct (map td_val samsung2ColorSpace)"
  "distinct (map td_val samsung2SmartRange)" "distinct (map td_val samsungPwMode)"
  by (simp_all add: samsung2LensType_def samsung2ColorSpace_def samsung2SmartRange_def
      samsungPwMode_def)

text \<open>
  C8. Bound to one of the four lookup tables of the file, the generic printer, on a
  value of one component whose type is the expected one and whose reading is \<open>x\<close>,
  writes the label of the table entry whose code is \<open>x\<close>, and the number \<open>x\<close> when no
  entry has that code; on a value of another count or type it writes the value's raw
  text.
\<close>

theorem printTag_on_lookup_tables:
  assumes "array \<in> {samsung2LensType, samsung2ColorSpace, samsung2SmartRange, samsungPwMode}"
  shows "(count v = 1 \<and> typeId v = expected \<and> toInt64 v 0 = Some x \<longrightarrow>
            (\<forall>td \<in> set array. td_val td = sint x \<longrightarrow>
               printTag array expected os v = Inr (os @ td_label td))
            \<and> ((\<forall>td \<in> set array. td_val td \<noteq> sint x) \<longrightarrow>
               printTag array expected os v = Inr (os @ show_int (sint x))))
     \<and> (count v \<noteq> 1 \<or> typeId v \<noteq> expected \<longrightarrow>
            printTag array expected os v = Inr (os @ toString v))"
proof -
  from assms have d: "distinct (map td_val array)"
    using lookup_tables_distinct by auto
  have hit: "find (\<lambda>e. td_val e = sint x) array = Some td"
    if "td \<in> set array" and "td_val td = sint x" for td
    using find_unique_code [OF d that(1)] that(2) by simp
  have miss: "find (\<lambda>e. td_val e = sint x) array = None"
    if "\<forall>td \<in> set array. td_val td \<noteq> sint x"
    using that by (rule find_absent_code)
  show ?thesis
    using hit miss by (auto simp: printTag_def)
qed

theorem printTag_on_lookup_tables_witness:
  "printTag samsung2LensType unsignedShort [] (example_value unsignedShort 1 20 ''20'')
      = Inr ''Samsung NX 50-150mm F2.8 S ED OIS''
   \<and> printTag samsung2LensType unsignedShort [] (example_value unsignedShort 1 16 ''16'')
      = Inr ''16''
   \<and> printTag samsungPwMode unsignedShort [] (example_value unsignedShort 2 1 ''1 1'')
      = Inr ''1 1''"
proof -
  have m: "TagDetails 20 ''Samsung NX 50-150mm F2.8 S ED OIS'' \<in> set samsung2LensType"
    by (simp add: samsung2LensType_def)
  have n: "\<forall>td \<in> set samsung2LensType. td_val td \<noteq> 16"
    by (simp add: samsung2LensType_def)
  have a: "printTag samsung2LensType unsignedShort [] (example_value unsignedShort 1 20 ''20'')
      = Inr ''Samsung NX 50-150mm F2.8 S ED OIS''"
    using printTag_on_lookup_tables
      [of samsung2LensType "example_value unsignedShort 1 20 ''20''" unsignedShort 20 "[]"] m
    by (force simp add: example_value_def)
  have b: "printTag samsung2LensType unsignedShort [] (example_value unsignedShort 1 16 ''16'')
      = Inr ''16''"
    using printTag_on_lookup_tables
      [of samsung2LensType "example_value unsignedShort 1 16 ''16''" unsignedShort 16 "[]"] n
    by (simp add: example_value_def show_int_def show_nat.simps digit_char_def)
  have c: "printTag samsungPwMode unsignedShort [] (example_value unsignedShort 2 1 ''1 1'')
      = Inr ''1 1''"
    using printTag_on_lookup_tables
      [of samsungPwMode "example_value unsignedShort 2 1 ''1 1''" unsignedShort 1 "[]"]
    by (simp add: example_value_def)
  from a b c show ?thesis by simp
qed

end
